theory Spec2Isabelle
  imports Complex_Main
begin

section \<open>Numeric values\<close>

text \<open>
  The calculator works on numpy \<open>float64\<close> scalars (the \<open>.value\<close> of an astropy
  quantity). They are embedded as exact reals extended with the three non-finite values
  that numpy produces instead of raising: \<open>sqrt\<close> of a negative number and \<open>log10\<close> of a
  negative number give \<open>nan\<close>, \<open>log10 0\<close> gives \<open>-inf\<close>, a division by zero gives
  \<open>inf\<close>, \<open>-inf\<close> or \<open>nan\<close>. Rounding, overflow and the sign of a zero are not
  represented (a zero divisor counts as \<open>+0.0\<close>); units are not represented either, a
  quantity is its numeric value.
\<close>

datatype npfloat = Fin real | PInf | NInf | NaN

fun is_finite :: "npfloat \<Rightarrow> bool" where
  "is_finite (Fin x) = True"
| "is_finite PInf = False"
| "is_finite NInf = False"
| "is_finite NaN = False"

fun np_sqrt :: "npfloat \<Rightarrow> npfloat" where
  "np_sqrt (Fin x) = (if x < 0 then NaN else Fin (sqrt x))"
| "np_sqrt PInf = PInf"
| "np_sqrt NInf = NaN"
| "np_sqrt NaN = NaN"

fun np_log10 :: "npfloat \<Rightarrow> npfloat" where
  "np_log10 (Fin x) = (if x < 0 then NaN else if x = 0 then NInf else Fin (log 10 x))"
| "np_log10 PInf = PInf"
| "np_log10 NInf = NaN"
| "np_log10 NaN = NaN"

fun inf_of_sign :: "real \<Rightarrow> npfloat" where
  "inf_of_sign x = (if 0 < x then PInf else if x < 0 then NInf else NaN)"

fun np_mul :: "npfloat \<Rightarrow> npfloat \<Rightarrow> npfloat" where
  "np_mul (Fin x) (Fin y) = Fin (x * y)"
| "np_mul (Fin x) PInf = inf_of_sign x"
| "np_mul (Fin x) NInf = inf_of_sign (- x)"
| "np_mul PInf (Fin y) = inf_of_sign y"
| "np_mul NInf (Fin y) = inf_of_sign (- y)"
| "np_mul PInf PInf = PInf"
| "np_mul PInf NInf = NInf"
| "np_mul NInf PInf = NInf"
| "np_mul NInf NInf = PInf"
| "np_mul NaN b = NaN"
| "np_mul a NaN = NaN"

fun np_div :: "npfloat \<Rightarrow> npfloat \<Rightarrow> npfloat" where
  "np_div (Fin x) (Fin y) = (if y = 0 then inf_of_sign x else Fin (x / y))"
| "np_div (Fin x) PInf = Fin 0"
| "np_div (Fin x) NInf = Fin 0"
| "np_div PInf (Fin y) = (if y < 0 then NInf else PInf)"
| "np_div NInf (Fin y) = (if y < 0 then PInf else NInf)"
| "np_div PInf PInf = NaN"
| "np_div PInf NInf = NaN"
| "np_div NInf PInf = NaN"
| "np_div NInf NInf = NaN"
| "np_div NaN b = NaN"
| "np_div a NaN = NaN"

section \<open>Errors, the interpreter state and the external packages\<close>

text \<open>
  An exception is a value. \<open>LookupFailure\<close> stands for whatever the external package
  \<open>hmbp\<close> raises; \<open>TypeError\<close> and \<open>OverflowError\<close> are raised by Python arithmetic
  and by the filename check of \<open>plot\<close>; \<open>ValueError\<close> and \<open>FileNotFoundError\<close> are
  examples of what matplotlib raises.
\<close>

datatype error =
    LookupFailure string
  | TypeError string
  | OverflowError string
  | ValueError string
  | FileNotFoundError string

text \<open>The Python values that can be passed for \<open>snr\<close> and \<open>filename\<close>.\<close>

datatype pyval =
    PyNone
  | PyBool bool
  | PyInt int
  | PyFloat real
  | PyStr string
  | PyList "pyval list"
  | PyNdarray "real list"

text \<open>The calls made to matplotlib, with their arguments.\<close>

datatype plt_call =
    Subplots
  | Scatter "real list" "npfloat list"
  | Axhline pyval
  | Set_xlim real real
  | Set_xlabel string
  | Set_ylabel string
  | Grid
  | Set_yscale string
  | Set_title string
  | Savefig string
  | Show

text \<open>
  The part of the interpreter state the module touches: the objects bound to
  \<open>sys.stdout\<close> and \<open>sys.stderr\<close> (object identities), the text written so far to every
  stream object, the next unused object identity, the calls made to matplotlib (whether
  they returned or raised) and the names of the files written.
\<close>

record world =
  sys_stdout :: nat
  sys_stderr :: nat
  written :: "nat \<Rightarrow> string list"
  next_obj :: nat
  plt_calls :: "plt_call list"
  files :: "string list"

text \<open>
  A call into \<open>hmbp\<close> may print to the streams bound to \<open>sys.stdout\<close> and
  \<open>sys.stderr\<close> at that moment, may write through stream objects it holds itself (a
  logging handler keeps the stream it was created with, whatever is bound later), and
  then returns a number or raises. The three functions of \<open>hmbp\<close> that the module calls
  are parameters of the model; the instrument and observatory arguments are the constants
  \<open>HAWKI\<close> and \<open>Paranal\<close> at every call site and are left out.
\<close>

record reply =
  to_stdout :: "string list"
  to_stderr :: "string list"
  to_held :: "(nat \<times> string list) list"
  outcome :: "error + real"

record hmbp =
  in_skycalc_background :: "string \<Rightarrow> real \<Rightarrow> real \<Rightarrow> reply"
  for_flux_in_filter :: "string \<Rightarrow> real \<Rightarrow> reply"
  in_zero_vega_mags :: "string \<Rightarrow> reply"

fun write_held :: "(nat \<times> string list) list \<Rightarrow> (nat \<Rightarrow> string list) \<Rightarrow> nat \<Rightarrow> string list" where
  "write_held [] wr = wr"
| "write_held ((obj, txt) # rest) wr = write_held rest (wr(obj := wr obj @ txt))"

definition emit :: "reply \<Rightarrow> world \<Rightarrow> world" where
  "emit r w =
     (let w1 = w\<lparr>written := (written w)(sys_stdout w := written w (sys_stdout w) @ to_stdout r)\<rparr>;
          w2 = w1\<lparr>written := (written w1)(sys_stderr w1 := written w1 (sys_stderr w1) @ to_stderr r)\<rparr>
      in w2\<lparr>written := write_held (to_held r) (written w2)\<rparr>)"

definition call_hmbp :: "reply \<Rightarrow> world \<Rightarrow> (error + real) \<times> world" where
  "call_hmbp r w = (outcome r, emit r w)"

text \<open>
  matplotlib is a parameter as well: for every call it says whether the call returns
  (\<open>None\<close>) or raises. A call is logged when it is made; \<open>savefig\<close> that returns has
  written the file.
\<close>

type_synonym pyplot = "plt_call \<Rightarrow> error option"

fun written_file :: "plt_call \<Rightarrow> string list" where
  "written_file (Savefig name) = [name]"
| "written_file c = []"

definition plt :: "pyplot \<Rightarrow> plt_call \<Rightarrow> world \<Rightarrow> (error + unit) \<times> world" where
  "plt mpl c w =
     (let w1 = w\<lparr>plt_calls := plt_calls w @ [c]\<rparr>
      in case mpl c of
           Some e \<Rightarrow> (Inl e, w1)
         | None \<Rightarrow> (Inr (), w1\<lparr>files := files w1 @ written_file c\<rparr>))"

text \<open>A sequence of statements that are matplotlib calls: the first one that raises ends it.\<close>

fun run_calls :: "pyplot \<Rightarrow> plt_call list \<Rightarrow> world \<Rightarrow> (error + unit) \<times> world" where
  "run_calls mpl [] w = (Inr (), w)"
| "run_calls mpl (c # cs) w =
     (case plt mpl c w of
        (Inl e, w1) \<Rightarrow> (Inl e, w1)
      | (Inr u, w1) \<Rightarrow> run_calls mpl cs w1)"

text \<open>\<open>io.StringIO()\<close>: a new, empty stream object.\<close>

definition StringIO :: "world \<Rightarrow> nat \<times> world" where
  "StringIO w = (next_obj w, w\<lparr>written := (written w)(next_obj w := []), next_obj := Suc (next_obj w)\<rparr>)"

section \<open>The calculator object\<close>

record HAWKI_ETC =
  exposure_time :: real
  airmass :: real
  pwv :: real
  seeing :: real
  telescope_size :: real
  obstruction_factor :: real
  reflectance_factor :: real
  efficiency_factor :: real
  collection_area :: real
  quantum_efficiency :: real
  pixel_scale :: real
  aper :: real

text \<open>
  The constructor computes with \<open>seeing\<close> and the two factors, so their Python values
  matter: a plain Python float or an int within the float range (\<open>PyNumber\<close>),
  a numpy scalar or astropy quantity (\<open>NpNumber\<close>, unit dropped), or \<open>None\<close>
  (\<open>PyNothing\<close>). Exposure time, airmass and water vapour are only stored and are numbers
  here. Strings and containers are not represented.
\<close>

datatype arg = PyNumber real | NpNumber real | PyNothing

fun arg_value :: "arg \<Rightarrow> real" where
  "arg_value (PyNumber x) = x"
| "arg_value (NpNumber x) = x"
| "arg_value PyNothing = 0"

text \<open>The messages of Python's \<open>TypeError\<close> for an operator, without the operand types.\<close>

definition unsupported_operand :: "string \<Rightarrow> string" where
  "unsupported_operand operator = ''unsupported operand type(s) for '' @ operator"

text \<open>\<open>a * b\<close>: with \<open>None\<close> on either side Python raises \<open>TypeError\<close>; a product of
  floats never raises.\<close>

fun py_mul :: "arg \<Rightarrow> arg \<Rightarrow> error + arg" where
  "py_mul (PyNumber x) (PyNumber y) = Inr (PyNumber (x * y))"
| "py_mul (PyNumber x) (NpNumber y) = Inr (NpNumber (x * y))"
| "py_mul (NpNumber x) (PyNumber y) = Inr (NpNumber (x * y))"
| "py_mul (NpNumber x) (NpNumber y) = Inr (NpNumber (x * y))"
| "py_mul PyNothing b = Inl (TypeError (unsupported_operand ''*''))"
| "py_mul a PyNothing = Inl (TypeError (unsupported_operand ''*''))"

text \<open>
  \<open>a ** 2.0\<close>: the power of a plain Python float raises \<open>OverflowError\<close> when the result
  rounds to infinity, that is when the exact square reaches \<open>2^1024 - 2^970\<close>; numpy
  returns \<open>inf\<close> there and does not raise; \<open>None\<close> raises \<open>TypeError\<close>.
\<close>

fun pow2_overflows :: "arg \<Rightarrow> bool" where
  "pow2_overflows (PyNumber x) = (2 ^ 1024 - 2 ^ 970 \<le> x ^ 2)"
| "pow2_overflows a = False"

fun py_pow2 :: "arg \<Rightarrow> error + arg" where
  "py_pow2 (PyNumber x) =
     (if pow2_overflows (PyNumber x) then Inl (OverflowError ''Numerical result out of range'')
      else Inr (PyNumber (x ^ 2)))"
| "py_pow2 (NpNumber x) = Inr (NpNumber (x ^ 2))"
| "py_pow2 PyNothing = Inl (TypeError (unsupported_operand ''** or pow()''))"

text \<open>
  \<open>__init__\<close>: stores its arguments and computes the derived constants; nothing is
  checked, and it raises only where the product of the factors (line 32) or the square
  of the seeing (line 36) raises.
\<close>

definition init :: "real \<Rightarrow> real \<Rightarrow> real \<Rightarrow> arg \<Rightarrow> arg \<Rightarrow> arg \<Rightarrow> error + HAWKI_ETC" where
  "init exposure_time' airmass' pwv' seeing' obstruction_factor' reflectance_factor' =
     (let telescope_size' = pi * 4 ^ 2
      in case py_mul obstruction_factor' reflectance_factor' of
           Inl e \<Rightarrow> Inl e
         | Inr efficiency_factor' \<Rightarrow>
             (let collection_area' = telescope_size' * arg_value efficiency_factor'
              in case py_pow2 seeing' of
                   Inl e \<Rightarrow> Inl e
                 | Inr seeing_squared \<Rightarrow>
                     Inr \<lparr>exposure_time = exposure_time', airmass = airmass', pwv = pwv',
                          seeing = arg_value seeing',
                          telescope_size = telescope_size',
                          obstruction_factor = arg_value obstruction_factor',
                          reflectance_factor = arg_value reflectance_factor',
                          efficiency_factor = arg_value efficiency_factor',
                          collection_area = collection_area',
                          quantum_efficiency = 9 / 10,
                          pixel_scale = 106 / 1000,
                          aper = pi * arg_value seeing_squared\<rparr>))"

text \<open>The object built with the default arguments (the default seeing is a quantity,
  the default factors are plain numbers).\<close>

definition default_etc :: "error + HAWKI_ETC" where
  "default_etc = init 3600 2 5 (NpNumber (8 / 10)) (PyNumber 1) (PyNumber 1)"

text \<open>
  Lines 49 and 50 of \<open>sky_noise\<close>: the interpreter-wide names \<open>sys.stdout\<close> and
  \<open>sys.stderr\<close> are bound to two new buffers.
\<close>

definition redirect_streams :: "world \<Rightarrow> world" where
  "redirect_streams w =
     (let (b1, w1) = StringIO w;
          w2 = w1\<lparr>sys_stdout := b1\<rparr>;
          (b2, w3) = StringIO w2
      in w3\<lparr>sys_stderr := b2\<rparr>)"

text \<open>
  \<open>sky_noise\<close>: both streams are rebound to fresh buffers, the lookup runs, and the
  \<open>finally\<close> block rebinds the saved objects whether the lookup returned or raised.
\<close>

definition sky_noise :: "HAWKI_ETC \<Rightarrow> hmbp \<Rightarrow> string \<Rightarrow> world \<Rightarrow> (error + real) \<times> world" where
  "sky_noise self svc filter_name w =
     (let old_stdout = sys_stdout w;
          old_stderr = sys_stderr w;
          (b1, w1) = StringIO w;
          w2 = w1\<lparr>sys_stdout := b1\<rparr>;
          (b2, w3) = StringIO w2;
          w4 = w3\<lparr>sys_stderr := b2\<rparr>;
          (r, w5) = call_hmbp (in_skycalc_background svc filter_name (airmass self) (pwv self)) w4;
          w6 = w5\<lparr>sys_stdout := old_stdout\<rparr>;
          w7 = w6\<lparr>sys_stderr := old_stderr\<rparr>
      in case r of
           Inl e \<Rightarrow> (Inl e, w7)
         | Inr sky \<Rightarrow>
             (Inr (sky * quantum_efficiency self * exposure_time self * collection_area self * aper self),
              w7))"

definition dark_current_noise :: "HAWKI_ETC \<Rightarrow> real" where
  "dark_current_noise self =
     (let n_pix = aper self / pixel_scale self ^ 2;
          dark_current = 125 / 10000
      in dark_current * n_pix * exposure_time self)"

definition read_noise :: "HAWKI_ETC \<Rightarrow> real" where
  "read_noise self =
     (let n_pix = aper self / pixel_scale self ^ 2;
          read_noise_per_pixel = 85 / 10
      in read_noise_per_pixel ^ 2 * n_pix)"

text \<open>
  \<open>compute_sn\<close>: the photon flux is looked up first (outside the redirection), then the
  sky noise; an exception of either lookup leaves the method at once.
\<close>

definition compute_sn ::
  "HAWKI_ETC \<Rightarrow> hmbp \<Rightarrow> real \<Rightarrow> string \<Rightarrow> world \<Rightarrow> (error + npfloat) \<times> world" where
  "compute_sn self svc star_flux filter_name w =
     (let (p, w1) = call_hmbp (for_flux_in_filter svc filter_name star_flux) w
      in case p of
           Inl e \<Rightarrow> (Inl e, w1)
         | Inr photons \<Rightarrow>
             (let signal = photons * collection_area self * quantum_efficiency self * exposure_time self;
                  (s, w2) = sky_noise self svc filter_name w1
              in case s of
                   Inl e \<Rightarrow> (Inl e, w2)
                 | Inr sky \<Rightarrow>
                     (let total_noise =
                            np_sqrt (Fin (signal + sky + dark_current_noise self + read_noise self));
                          snr_aper = np_div (Fin signal) total_noise
                      in (Inr snr_aper, w2))))"

text \<open>
  \<open>flux_to_mag\<close>: \<open>np.log10\<close> does not raise on a non-positive argument, so the method
  has no failing path; the sum type is kept to state that.
\<close>

definition flux_to_mag :: "HAWKI_ETC \<Rightarrow> npfloat \<Rightarrow> real \<Rightarrow> error + npfloat" where
  "flux_to_mag self flux zero_point_flux_photon =
     (let F0_electron =
            zero_point_flux_photon * collection_area self * quantum_efficiency self * exposure_time self;
          magnitude = np_mul (Fin (- (25 / 10))) (np_log10 (np_div flux (Fin F0_electron)))
      in Inr magnitude)"

definition detectable_star_brightness ::
  "HAWKI_ETC \<Rightarrow> hmbp \<Rightarrow> real \<Rightarrow> string \<Rightarrow> world \<Rightarrow> (error + npfloat) \<times> world" where
  "detectable_star_brightness self svc desired_sn filter_name w =
     (let (s, w1) = sky_noise self svc filter_name w
      in case s of
           Inl e \<Rightarrow> (Inl e, w1)
         | Inr sky \<Rightarrow>
             (let total_noise = np_sqrt (Fin (sky + dark_current_noise self + read_noise self));
                  required_flux = np_mul (Fin desired_sn) total_noise;
                  (z, w2) = call_hmbp (in_zero_vega_mags svc filter_name) w1
              in case z of
                   Inl e \<Rightarrow> (Inl e, w2)
                 | Inr zero_point_flux_photon \<Rightarrow>
                     (flux_to_mag self required_flux zero_point_flux_photon, w2)))"

section \<open>Plotting\<close>

fun type_name :: "pyval \<Rightarrow> string" where
  "type_name PyNone = ''NoneType''"
| "type_name (PyBool b) = ''bool''"
| "type_name (PyInt i) = ''int''"
| "type_name (PyFloat x) = ''float''"
| "type_name (PyStr s) = ''str''"
| "type_name (PyList xs) = ''list''"
| "type_name (PyNdarray xs) = ''numpy.ndarray''"

text \<open>\<open>isinstance(snr, (float, int, list, np.ndarray))\<close>; \<open>bool\<close> is a subclass of
  \<open>int\<close>.\<close>

fun is_number_or_sequence :: "pyval \<Rightarrow> bool" where
  "is_number_or_sequence PyNone = False"
| "is_number_or_sequence (PyBool b) = True"
| "is_number_or_sequence (PyInt i) = True"
| "is_number_or_sequence (PyFloat x) = True"
| "is_number_or_sequence (PyStr s) = False"
| "is_number_or_sequence (PyList xs) = True"
| "is_number_or_sequence (PyNdarray xs) = True"

fun is_str :: "pyval \<Rightarrow> bool" where
  "is_str (PyStr s) = True"
| "is_str v = False"

fun the_str :: "pyval \<Rightarrow> string" where
  "the_str (PyStr s) = s"
| "the_str v = []"

text \<open>\<open>np.arange(26, 8, -0.1)\<close>: 180 magnitudes from 26 down to 8.1.\<close>

definition brightness_list :: "real list" where
  "brightness_list = map (\<lambda>i. 26 - real i / 10) [0..<180]"

text \<open>The list comprehension over \<open>compute_sn\<close> (filter \<open>Ks\<close> by default): the
  first call that raises ends it.\<close>

fun sweep :: "HAWKI_ETC \<Rightarrow> hmbp \<Rightarrow> real list \<Rightarrow> world \<Rightarrow> (error + npfloat list) \<times> world" where
  "sweep self svc [] w = (Inr [], w)"
| "sweep self svc (brightness # rest) w =
     (case compute_sn self svc brightness ''Ks'' w of
        (Inl e, w1) \<Rightarrow> (Inl e, w1)
      | (Inr y, w1) \<Rightarrow>
          (case sweep self svc rest w1 of
             (Inl e, w2) \<Rightarrow> (Inl e, w2)
           | (Inr ys, w2) \<Rightarrow> (Inr (y # ys), w2)))"

datatype figure = Figure

definition type_error_message :: "pyval \<Rightarrow> string" where
  "type_error_message filename =
     ''filename has to be a string, <class '' @ [CHR 0x27] @ type_name filename @ [CHR 0x27]
       @ ''> is given.''"

text \<open>The calls of lines 149 to 157, in order; \<open>axhline\<close> is called only for an \<open>snr\<close>
  that passes the \<open>isinstance\<close> test.\<close>

definition drawing_calls :: "pyval \<Rightarrow> npfloat list \<Rightarrow> plt_call list" where
  "drawing_calls snr snr_aper_list =
     [Scatter brightness_list snr_aper_list]
     @ (if is_number_or_sequence snr then [Axhline snr] else [])
     @ [Set_xlim (fold min (tl brightness_list) (hd brightness_list))
                 (fold max (tl brightness_list) (hd brightness_list)),
        Set_xlabel ''Brightness (Magnitude)'',
        Set_ylabel ''SNR'',
        Grid,
        Set_yscale ''log'',
        Set_title ''SNR as a function of Star Brightness'']"

text \<open>Lines 146 to 157 of \<open>plot\<close>: everything before the \<open>savefig\<close> test.\<close>

definition draw :: "pyplot \<Rightarrow> HAWKI_ETC \<Rightarrow> hmbp \<Rightarrow> pyval \<Rightarrow> world \<Rightarrow> (error + unit) \<times> world" where
  "draw mpl self svc snr w =
     (case plt mpl Subplots w of
        (Inl e, w1) \<Rightarrow> (Inl e, w1)
      | (Inr u, w1) \<Rightarrow>
          (case sweep self svc brightness_list w1 of
             (Inl e, w2) \<Rightarrow> (Inl e, w2)
           | (Inr snr_aper_list, w2) \<Rightarrow> run_calls mpl (drawing_calls snr snr_aper_list) w2))"

text \<open>Lines 165 and 166: \<open>plt.show()\<close>, then the figure is returned.\<close>

definition show_and_return :: "pyplot \<Rightarrow> world \<Rightarrow> (error + figure) \<times> world" where
  "show_and_return mpl w =
     (case plt mpl Show w of
        (Inl e, w1) \<Rightarrow> (Inl e, w1)
      | (Inr u, w1) \<Rightarrow> (Inr Figure, w1))"

definition plot ::
  "pyplot \<Rightarrow> HAWKI_ETC \<Rightarrow> hmbp \<Rightarrow> pyval \<Rightarrow> bool \<Rightarrow> pyval \<Rightarrow> world \<Rightarrow> (error + figure) \<times> world" where
  "plot mpl self svc snr savefig filename w =
     (case draw mpl self svc snr w of
        (Inl e, w1) \<Rightarrow> (Inl e, w1)
      | (Inr u, w1) \<Rightarrow>
          (if savefig then
             (if is_str filename then
                (case plt mpl (Savefig (the_str filename)) w1 of
                   (Inl e, w2) \<Rightarrow> (Inl e, w2)
                 | (Inr u, w2) \<Rightarrow> show_and_return mpl w2)
              else (Inl (TypeError (type_error_message filename)), w1))
           else show_and_return mpl w1))"

text \<open>The calls of \<open>savefig\<close> that were made, in order.\<close>

fun is_savefig :: "plt_call \<Rightarrow> bool" where
  "is_savefig (Savefig name) = True"
| "is_savefig c = False"

definition saved :: "world \<Rightarrow> plt_call list" where
  "saved w = filter is_savefig (plt_calls w)"

section \<open>Comparing two results\<close>




section \<open>Stand-ins for the external packages and an initial state\<close>

text \<open>
  A small replacement for \<open>hmbp\<close>, used to run the model on concrete inputs: it knows the
  filter \<open>Ks\<close> only; its sky lookup prints on both streams and logs through a handler
  that holds stream object 1; its photon flux \<open>30 - m\<close> decreases with the magnitude
  \<open>m\<close>. The replacement for matplotlib refuses a list of several values in \<open>axhline\<close>
  and cannot write below \<open>/nonexistent_dir/\<close>. In the initial state the two standard
  streams are the objects 0 and 1, nothing has been written and no file exists.
\<close>

definition quiet :: "error + real \<Rightarrow> reply" where
  "quiet r = \<lparr>to_stdout = [], to_stderr = [], to_held = [], outcome = r\<rparr>"

definition stub_hmbp :: "real \<Rightarrow> hmbp" where
  "stub_hmbp sky_background =
     \<lparr>in_skycalc_background =
        (\<lambda>f am pw. \<lparr>to_stdout = [''skycalc: note''], to_stderr = [''skycalc: warning''],
                     to_held = [(1, [''skycalc: logged''])],
                     outcome = (if f = ''Ks'' then Inr sky_background else Inl (LookupFailure f))\<rparr>),
      for_flux_in_filter = (\<lambda>f m. quiet (Inr (30 - m))),
      in_zero_vega_mags = (\<lambda>f. quiet (Inr 1000))\<rparr>"

fun stub_pyplot :: "plt_call \<Rightarrow> error option" where
  "stub_pyplot (Axhline (PyList xs)) =
     (if 1 < length xs then Some (ValueError ''y is not a scalar'') else None)"
| "stub_pyplot (Savefig name) =
     (if take 17 name = ''/nonexistent_dir/'' then Some (FileNotFoundError name) else None)"
| "stub_pyplot c = None"

definition world0 :: world where
  "world0 = \<lparr>sys_stdout = 0, sys_stderr = 1, written = (\<lambda>i. []), next_obj = 2, plt_calls = [],
             files = []\<rparr>"

section \<open>Basic facts about the methods\<close>

lemma sky_noise_result:
  "fst (sky_noise self svc f w) =
     (case outcome (in_skycalc_background svc f (airmass self) (pwv self)) of
        Inl e \<Rightarrow> Inl e
      | Inr sky \<Rightarrow> Inr (sky * quantum_efficiency self * exposure_time self * collection_area self * aper self))"
  by (simp add: sky_noise_def StringIO_def call_hmbp_def Let_def split: sum.splits prod.splits)

lemma sky_noise_world:
  "snd (sky_noise self svc f w) =
     (emit (in_skycalc_background svc f (airmass self) (pwv self)) (redirect_streams w))
       \<lparr>sys_stdout := sys_stdout w, sys_stderr := sys_stderr w\<rparr>"
  by (simp add: sky_noise_def redirect_streams_def StringIO_def call_hmbp_def Let_def
      split: sum.splits prod.splits)

lemma redirect_streams_bindings:
  "sys_stdout (redirect_streams w) = next_obj w" "sys_stderr (redirect_streams w) = Suc (next_obj w)"
  by (simp_all add: redirect_streams_def StringIO_def Let_def)

lemma emit_frame:
  "sys_stdout (emit r w) = sys_stdout w" "sys_stderr (emit r w) = sys_stderr w"
  "plt_calls (emit r w) = plt_calls w" "files (emit r w) = files w" "next_obj (emit r w) = next_obj w"
  by (simp_all add: emit_def Let_def)

lemma redirect_streams_frame:
  "plt_calls (redirect_streams w) = plt_calls w" "files (redirect_streams w) = files w"
  by (simp_all add: redirect_streams_def StringIO_def Let_def)

lemma py_mul_value: "py_mul a b = Inr e \<Longrightarrow> arg_value e = arg_value a * arg_value b"
  by (cases a; cases b) auto

lemma py_pow2_value: "py_pow2 a = Inr sq \<Longrightarrow> arg_value sq = arg_value a ^ 2"
  by (cases a) (auto simp del: pow2_overflows.simps split: if_splits)

lemma init_fields:
  assumes "init t am pw se ob rf = Inr self"
  shows "exposure_time self = t" "airmass self = am" "pwv self = pw"
    "seeing self = arg_value se" "obstruction_factor self = arg_value ob"
    "reflectance_factor self = arg_value rf"
    "collection_area self = pi * 16 * (arg_value ob * arg_value rf)"
    "quantum_efficiency self = 9 / 10"
    "pixel_scale self = 106 / 1000" "aper self = pi * arg_value se ^ 2"
proof -
  obtain e where e: "py_mul ob rf = Inr e"
    using assms by (cases "py_mul ob rf") (simp_all add: init_def Let_def)
  obtain sq where sq: "py_pow2 se = Inr sq"
    using assms e by (cases "py_pow2 se") (simp_all add: init_def Let_def)
  have self: "self = \<lparr>exposure_time = t, airmass = am, pwv = pw, seeing = arg_value se,
       telescope_size = pi * 4 ^ 2, obstruction_factor = arg_value ob,
       reflectance_factor = arg_value rf, efficiency_factor = arg_value e,
       collection_area = pi * 4 ^ 2 * arg_value e, quantum_efficiency = 9 / 10,
       pixel_scale = 106 / 1000, aper = pi * arg_value sq\<rparr>"
    using assms e sq by (simp add: init_def Let_def)
  note v = py_mul_value[OF e] py_pow2_value[OF sq]
  show "exposure_time self = t" "airmass self = am" "pwv self = pw"
    "seeing self = arg_value se" "obstruction_factor self = arg_value ob"
    "reflectance_factor self = arg_value rf"
    "collection_area self = pi * 16 * (arg_value ob * arg_value rf)"
    "quantum_efficiency self = 9 / 10"
    "pixel_scale self = 106 / 1000" "aper self = pi * arg_value se ^ 2"
    by (simp_all add: self v)
qed

lemma compute_sn_result:
  "fst (compute_sn self svc b f w) =
     (case outcome (for_flux_in_filter svc f b) of
        Inl e \<Rightarrow> Inl e
      | Inr photons \<Rightarrow>
          (case fst (sky_noise self svc f w') of
             Inl e \<Rightarrow> Inl e
           | Inr sky \<Rightarrow>
               Inr (np_div
                      (Fin (photons * collection_area self * quantum_efficiency self * exposure_time self))
                      (np_sqrt (Fin (photons * collection_area self * quantum_efficiency self
                                       * exposure_time self
                                     + sky + dark_current_noise self + read_noise self))))))"
  by (simp add: compute_sn_def call_hmbp_def Let_def split_beta sky_noise_result split: sum.splits)

lemma sky_value_nonneg:
  fixes sky t ob rf se :: real
  assumes "0 \<le> sky" and "0 \<le> t" and "0 \<le> ob" and "0 \<le> rf"
  shows "0 \<le> sky * (9 / 10) * t * (pi * 16 * (ob * rf)) * (pi * se ^ 2)"
  using assms by (intro mult_nonneg_nonneg) simp_all



lemma compute_sn_frame:
  "plt_calls (snd (compute_sn self svc b f w)) = plt_calls w"
  "files (snd (compute_sn self svc b f w)) = files w"
  by (simp_all add: compute_sn_def call_hmbp_def Let_def split_beta sky_noise_world emit_frame
      redirect_streams_frame split: sum.splits)

lemma sweep_frame:
  "plt_calls (snd (sweep self svc bs w)) = plt_calls w \<and> files (snd (sweep self svc bs w)) = files w"
proof (induction bs arbitrary: w)
  case Nil
  then show ?case by simp
next
  case (Cons b bs)
  obtain r w1 where c: "compute_sn self svc b ''Ks'' w = (r, w1)"
    by (cases "compute_sn self svc b ''Ks'' w")
  then have p: "plt_calls w1 = plt_calls w \<and> files w1 = files w"
    using compute_sn_frame[of self svc b "''Ks''" w] by simp
  show ?case
  proof (cases r)
    case (Inl e)
    with c p show ?thesis by simp
  next
    case (Inr y)
    obtain r2 w2 where s: "sweep self svc bs w1 = (r2, w2)" by (cases "sweep self svc bs w1")
    then have "plt_calls w2 = plt_calls w1 \<and> files w2 = files w1" using Cons.IH[of w1] by simp
    with c p s Inr show ?thesis by (cases r2) simp_all
  qed
qed

lemma sweep_returns:
  assumes "\<And>b. \<exists>p. outcome (for_flux_in_filter svc ''Ks'' b) = Inr p"
    and "outcome (in_skycalc_background svc ''Ks'' (airmass self) (pwv self)) = Inr sky"
  shows "\<exists>ys. fst (sweep self svc bs w) = Inr ys"
proof (induction bs arbitrary: w)
  case Nil
  then show ?case by simp
next
  case (Cons b bs)
  obtain p where p: "outcome (for_flux_in_filter svc ''Ks'' b) = Inr p" using assms(1) by blast
  obtain r w1 where c: "compute_sn self svc b ''Ks'' w = (r, w1)"
    by (cases "compute_sn self svc b ''Ks'' w")
  have "\<exists>y. fst (compute_sn self svc b ''Ks'' w) = Inr y"
    using p assms(2) by (simp add: compute_sn_result[where w' = w] sky_noise_result)
  then obtain y where y: "r = Inr y" using c by auto
  obtain ys where ys: "fst (sweep self svc bs w1) = Inr ys" using Cons.IH[of w1] by blast
  obtain r2 w2 where s: "sweep self svc bs w1 = (r2, w2)" by (cases "sweep self svc bs w1")
  with ys have "r2 = Inr ys" by simp
  with c y s show ?case by simp
qed

lemma plt_frame:
  "saved (snd (plt mpl c w)) = saved w @ filter is_savefig [c]"
  "\<not> is_savefig c \<Longrightarrow> files (snd (plt mpl c w)) = files w"
  "fst (plt mpl c w) = (case mpl c of Some e \<Rightarrow> Inl e | None \<Rightarrow> Inr ())"
  by (cases c; simp add: plt_def saved_def Let_def split: option.splits)+

lemma run_calls_frame:
  assumes "\<forall>c\<in>set cs. \<not> is_savefig c"
  shows "saved (snd (run_calls mpl cs w)) = saved w \<and> files (snd (run_calls mpl cs w)) = files w"
  using assms
proof (induction cs arbitrary: w)
  case Nil
  then show ?case by simp
next
  case (Cons c cs)
  obtain r w1 where p: "plt mpl c w = (r, w1)" by (cases "plt mpl c w")
  have n: "\<not> is_savefig c" using Cons.prems by simp
  have f: "saved w1 = saved w \<and> files w1 = files w"
    using plt_frame(1)[where mpl = mpl and c = c and w = w]
      plt_frame(2)[where mpl = mpl and c = c and w = w] p n by simp
  show ?case
  proof (cases r)
    case (Inl e)
    with p f show ?thesis by simp
  next
    case (Inr u)
    have "saved (snd (run_calls mpl cs w1)) = saved w1 \<and> files (snd (run_calls mpl cs w1)) = files w1"
      using Cons.IH[of w1] Cons.prems by simp
    with p f Inr show ?thesis by simp
  qed
qed

lemma drawing_calls_no_savefig: "\<forall>c\<in>set (drawing_calls snr ys). \<not> is_savefig c"
  by (simp add: drawing_calls_def)

lemma draw_frame:
  "saved (snd (draw mpl self svc snr w)) = saved w \<and> files (snd (draw mpl self svc snr w)) = files w"
proof -
  obtain r1 w1 where p: "plt mpl Subplots w = (r1, w1)" by (cases "plt mpl Subplots w")
  have f1: "saved w1 = saved w \<and> files w1 = files w"
    using plt_frame(1)[where mpl = mpl and c = Subplots and w = w]
      plt_frame(2)[where mpl = mpl and c = Subplots and w = w] p by simp
  show ?thesis
  proof (cases r1)
    case (Inl e)
    with p f1 show ?thesis by (simp add: draw_def)
  next
    case (Inr u)
    obtain r2 w2 where s: "sweep self svc brightness_list w1 = (r2, w2)"
      by (cases "sweep self svc brightness_list w1")
    have f2: "saved w2 = saved w1 \<and> files w2 = files w1"
      using sweep_frame[of self svc brightness_list w1] s by (simp add: saved_def)
    show ?thesis
    proof (cases r2)
      case (Inl e)
      with p Inr s f1 f2 show ?thesis by (simp add: draw_def)
    next
      case (Inr ys)
      have "saved (snd (run_calls mpl (drawing_calls snr ys) w2)) = saved w2
          \<and> files (snd (run_calls mpl (drawing_calls snr ys) w2)) = files w2"
        using run_calls_frame[OF drawing_calls_no_savefig] by blast
      with p \<open>r1 = Inr u\<close> s Inr f1 f2 show ?thesis by (simp add: draw_def)
    qed
  qed
qed

lemma show_and_return_frame:
  "saved (snd (show_and_return mpl w)) = saved w" "files (snd (show_and_return mpl w)) = files w"
  "fst (show_and_return mpl w) = (case mpl Show of Some e \<Rightarrow> Inl e | None \<Rightarrow> Inr Figure)"
  by (simp_all add: show_and_return_def plt_def saved_def Let_def split: option.splits)

lemma stub_sweep_returns:
  "\<exists>ys w2. sweep (projr default_etc) (stub_hmbp 100) brightness_list w = (Inr ys, w2)"
proof -
  have "\<exists>ys. fst (sweep (projr default_etc) (stub_hmbp 100) brightness_list w) = Inr ys"
    by (rule sweep_returns[where sky = 100])
       (simp_all add: stub_hmbp_def quiet_def default_etc_def init_def Let_def)
  then show ?thesis
    by (cases "sweep (projr default_etc) (stub_hmbp 100) brightness_list w") auto
qed

lemma stub_draw_returns:
  "fst (draw stub_pyplot (projr default_etc) (stub_hmbp 100) (PyInt 5) world0) = Inr ()"
proof -
  obtain ys w2 where
    s: "sweep (projr default_etc) (stub_hmbp 100) brightness_list
          (snd (plt stub_pyplot Subplots world0)) = (Inr ys, w2)"
    using stub_sweep_returns by blast
  show ?thesis
    using s by (simp add: draw_def plt_def drawing_calls_def Let_def)
qed

section \<open>Properties\<close>

text \<open>
  C9, as the code has it. The constructor validates nothing and raises only where its own
  arithmetic raises. For a seeing and factors that are numbers (a zero or negative
  exposure time or seeing and an airmass below 1 included) it returns an object that
  stores the arguments as given and holds the derived constants computed from them,
  unless the seeing is a plain Python float whose square overflows, in which case
  \<open>seeing ** 2.0\<close> raises \<open>OverflowError\<close>. With \<open>None\<close> for a factor the product of
  line 32 raises \<open>TypeError\<close>; with \<open>None\<close> for the seeing the power of line 36 does.
\<close>

theorem init_raises_only_in_arithmetic:
  "(ob \<noteq> PyNothing \<and> rf \<noteq> PyNothing \<and> se \<noteq> PyNothing \<and> \<not> pow2_overflows se \<longrightarrow>
      (\<exists>self. init t am pw se ob rf = Inr self \<and> exposure_time self = t \<and> airmass self = am
         \<and> pwv self = pw \<and> seeing self = arg_value se
         \<and> obstruction_factor self = arg_value ob \<and> reflectance_factor self = arg_value rf
         \<and> telescope_size self = pi * 4 ^ 2
         \<and> efficiency_factor self = arg_value ob * arg_value rf
         \<and> collection_area self = pi * 4 ^ 2 * (arg_value ob * arg_value rf)
         \<and> aper self = pi * arg_value se ^ 2))
   \<and> (ob = PyNothing \<or> rf = PyNothing \<longrightarrow> (\<exists>m. init t am pw se ob rf = Inl (TypeError m)))
   \<and> (ob \<noteq> PyNothing \<and> rf \<noteq> PyNothing \<and> se = PyNothing \<longrightarrow>
        (\<exists>m. init t am pw se ob rf = Inl (TypeError m)))
   \<and> (ob \<noteq> PyNothing \<and> rf \<noteq> PyNothing \<and> pow2_overflows se \<longrightarrow>
        (\<exists>m. init t am pw se ob rf = Inl (OverflowError m)))"
  by (cases ob; cases rf; cases se)
     (simp_all add: init_def Let_def del: pow2_overflows.simps(1))

theorem init_raises_only_in_arithmetic_witness:
  "(\<exists>self. init 0 (1 / 2) (- 1) (NpNumber (- 3)) (PyNumber (- 1)) (PyNumber 0) = Inr self
       \<and> exposure_time self = 0 \<and> airmass self = 1 / 2 \<and> pwv self = - 1
       \<and> seeing self = - 3 \<and> obstruction_factor self = - 1 \<and> reflectance_factor self = 0
       \<and> telescope_size self = pi * 16 \<and> efficiency_factor self = 0
       \<and> collection_area self = 0 \<and> aper self = pi * 9)
   \<and> (\<exists>m. init 3600 2 5 (NpNumber (8 / 10)) PyNothing (PyNumber 1) = Inl (TypeError m))
   \<and> (\<exists>m. init 3600 2 5 (PyNumber (2 ^ 512)) (PyNumber 1) (PyNumber 1) = Inl (OverflowError m))"
  using init_raises_only_in_arithmetic[of "PyNumber (- 1)" "PyNumber 0" "NpNumber (- 3)" 0 "1 / 2" "- 1"]
    init_raises_only_in_arithmetic[of PyNothing "PyNumber 1" "NpNumber (8 / 10)" 3600 2 5]
    init_raises_only_in_arithmetic[of "PyNumber 1" "PyNumber 1" "PyNumber (2 ^ 512)" 3600 2 5]
  by simp

text \<open>
  C9 as stated fails: constructing with \<open>seeing = None\<close> and the default factors
  raises \<open>TypeError\<close>.
\<close>

theorem init_raises_for_missing_seeing:
  "init 3600 2 5 PyNothing (PyNumber 1) (PyNumber 1)
     = Inl (TypeError (unsupported_operand ''** or pow()''))"
  by (simp add: init_def Let_def)

text \<open>
  C6. For a configuration with positive exposure time and seeing, non-negative obstruction
  and reflectance factors and a non-negative sky background from the service, \<open>sky_noise\<close>
  returns a non-negative value, and \<open>dark_current_noise\<close> and \<open>read_noise\<close> are
  non-negative.
\<close>

theorem noise_terms_nonnegative:
  assumes "init t am pw se ob rf = Inr self"
    and "0 < exposure_time self" and "0 < seeing self"
    and "0 \<le> obstruction_factor self" and "0 \<le> reflectance_factor self"
    and "outcome (in_skycalc_background svc f (airmass self) (pwv self)) = Inr sky" and "0 \<le> sky"
  shows "(\<exists>v. fst (sky_noise self svc f w) = Inr v \<and> 0 \<le> v)
       \<and> 0 \<le> dark_current_noise self \<and> 0 \<le> read_noise self"
proof -
  note fs = init_fields[OF assms(1)]
  have "fst (sky_noise self svc f w) =
          Inr (sky * (9 / 10) * exposure_time self
               * (pi * 16 * (obstruction_factor self * reflectance_factor self))
               * (pi * seeing self ^ 2))"
    using assms(6) by (simp add: sky_noise_result fs)
  moreover have "0 \<le> sky * (9 / 10) * exposure_time self
               * (pi * 16 * (obstruction_factor self * reflectance_factor self))
               * (pi * seeing self ^ 2)"
    using assms by (intro sky_value_nonneg) simp_all
  moreover have "0 \<le> dark_current_noise self"
    using assms(2) by (simp add: dark_current_noise_def fs(8-10) Let_def)
  moreover have "0 \<le> read_noise self"
    by (simp add: read_noise_def fs(8-10) Let_def)
  ultimately show ?thesis by blast
qed

theorem noise_terms_nonnegative_witness:
  "(\<exists>v. fst (sky_noise (projr default_etc) (stub_hmbp 100) ''Ks'' world0) = Inr v \<and> 0 \<le> v)
   \<and> 0 \<le> dark_current_noise (projr default_etc) \<and> 0 \<le> read_noise (projr default_etc)"
  using noise_terms_nonnegative[of 3600 2 5 "NpNumber (8 / 10)" "PyNumber 1" "PyNumber 1"
      "projr default_etc" "stub_hmbp 100" "''Ks''" 100 world0]
  by (simp add: stub_hmbp_def default_etc_def init_def Let_def)

text \<open>
  C4, as the code has it. \<open>sky_noise\<close> redirects the two streams by rebinding the
  interpreter-wide names \<open>sys.stdout\<close> and \<open>sys.stderr\<close> to two new buffers: the lookup
  runs in the state \<open>redirect_streams w\<close>, where both names denote objects that did not
  exist before. The \<open>finally\<close> block puts the saved objects back on every exit path:
  whether the lookup returns or raises, afterwards both names denote the objects they
  denoted before the call. The value returned depends on the outcome of the lookup only,
  and an exception of the lookup reaches the caller unchanged.
\<close>

theorem sky_noise_redirection_scoped:
  "sys_stdout (snd (sky_noise self svc f w)) = sys_stdout w
   \<and> sys_stderr (snd (sky_noise self svc f w)) = sys_stderr w
   \<and> snd (sky_noise self svc f w) =
        (emit (in_skycalc_background svc f (airmass self) (pwv self)) (redirect_streams w))
          \<lparr>sys_stdout := sys_stdout w, sys_stderr := sys_stderr w\<rparr>
   \<and> sys_stdout (redirect_streams w) = next_obj w
   \<and> sys_stderr (redirect_streams w) = Suc (next_obj w)
   \<and> (sys_stdout w < next_obj w \<longrightarrow> sys_stdout (redirect_streams w) \<noteq> sys_stdout w)
   \<and> (sys_stderr w < next_obj w \<longrightarrow> sys_stderr (redirect_streams w) \<noteq> sys_stderr w)
   \<and> fst (sky_noise self svc f w) =
        (case outcome (in_skycalc_background svc f (airmass self) (pwv self)) of
           Inl e \<Rightarrow> Inl e
         | Inr sky \<Rightarrow> Inr (sky * quantum_efficiency self * exposure_time self
                            * collection_area self * aper self))"
  by (simp add: sky_noise_world sky_noise_result redirect_streams_bindings)

theorem sky_noise_redirection_scoped_witness:
  "sys_stdout (snd (sky_noise (projr default_etc) (stub_hmbp 100) ''Ks'' world0)) = 0
 \<and> sys_stderr (snd (sky_noise (projr default_etc) (stub_hmbp 100) ''Ks'' world0)) = 1
 \<and> sys_stdout (redirect_streams world0) \<noteq> sys_stdout world0
 \<and> sys_stderr (redirect_streams world0) \<noteq> sys_stderr world0
 \<and> fst (sky_noise (projr default_etc) (stub_hmbp 100) ''Ks'' world0)
      = Inr (100 * (9 / 10) * 3600 * (pi * 16) * (pi * (8 / 10) ^ 2))
 \<and> sys_stdout (snd (sky_noise (projr default_etc) (stub_hmbp 100) ''Z'' world0)) = 0
 \<and> sys_stderr (snd (sky_noise (projr default_etc) (stub_hmbp 100) ''Z'' world0)) = 1
 \<and> fst (sky_noise (projr default_etc) (stub_hmbp 100) ''Z'' world0) = Inl (LookupFailure ''Z'')"
  using sky_noise_redirection_scoped[of "projr default_etc" "stub_hmbp 100" "''Ks''" world0]
    sky_noise_redirection_scoped[of "projr default_etc" "stub_hmbp 100" "''Z''" world0]
  by (simp add: world0_def stub_hmbp_def default_etc_def init_def Let_def)

text \<open>
  C4 as stated fails in the clause that there is no override of global state: from a
  state where \<open>sys.stdout\<close> is object 0 and \<open>sys.stderr\<close> is object 1, the lookup is run
  in a state where the two interpreter-wide names denote the objects 2 and 3, and what it
  prints is found in those two objects afterwards.
\<close>

theorem sky_noise_rebinds_global_streams:
  "sys_stdout world0 = 0 \<and> sys_stderr world0 = 1
   \<and> sys_stdout (redirect_streams world0) = 2 \<and> sys_stderr (redirect_streams world0) = 3
   \<and> snd (sky_noise (projr default_etc) (stub_hmbp 100) ''Ks'' world0) =
        (emit (in_skycalc_background (stub_hmbp 100) ''Ks'' 2 5) (redirect_streams world0))
          \<lparr>sys_stdout := 0, sys_stderr := 1\<rparr>
   \<and> written (snd (sky_noise (projr default_etc) (stub_hmbp 100) ''Ks'' world0)) 2 = [''skycalc: note'']
   \<and> written (snd (sky_noise (projr default_etc) (stub_hmbp 100) ''Ks'' world0)) 3 = [''skycalc: warning'']"
  by (simp add: sky_noise_world redirect_streams_def StringIO_def emit_def world0_def stub_hmbp_def
      default_etc_def init_def Let_def)

text \<open>
  C1. When both lookups return, \<open>compute_sn\<close> returns
  \<open>signal / sqrt (signal + sky_noise + dark_current_noise + read_noise)\<close> in numpy
  arithmetic, with \<open>signal = photons * collection_area * quantum_efficiency * exposure_time\<close>;
  each term enters the sum as it is. Where the sum is positive this is the real quotient.
\<close>

theorem compute_sn_formula:
  assumes "outcome (for_flux_in_filter svc f b) = Inr photons"
    and "fst (sky_noise self svc f w') = Inr sky"
    and "signal = photons * collection_area self * quantum_efficiency self * exposure_time self"
  shows "fst (compute_sn self svc b f w) =
           Inr (np_div (Fin signal)
                  (np_sqrt (Fin (signal + sky + dark_current_noise self + read_noise self))))
       \<and> (0 < signal + sky + dark_current_noise self + read_noise self \<longrightarrow>
            fst (compute_sn self svc b f w) =
              Inr (Fin (signal / sqrt (signal + sky + dark_current_noise self + read_noise self))))"
proof -
  have "fst (compute_sn self svc b f w) =
          Inr (np_div (Fin signal)
                 (np_sqrt (Fin (signal + sky + dark_current_noise self + read_noise self))))"
    using assms by (simp add: compute_sn_result[where w' = w'])
  then show ?thesis by simp
qed

theorem compute_sn_formula_witness:
  "fst (compute_sn (projr default_etc) (stub_hmbp 0) 20 ''Ks'' world0) =
     Inr (Fin (10 * (pi * 16) * (9 / 10) * 3600
          / sqrt (10 * (pi * 16) * (9 / 10) * 3600 + 0
                  + dark_current_noise (projr default_etc) + read_noise (projr default_etc))))"
proof -
  have pos: "0 < 10 * (pi * 16) * (9 / 10) * 3600 + 0
                  + dark_current_noise (projr default_etc) + read_noise (projr default_etc)"
    by (simp add: dark_current_noise_def read_noise_def default_etc_def init_def Let_def
        add_pos_pos)
  show ?thesis
    using pos compute_sn_formula[of "stub_hmbp 0" "''Ks''" 20 10 "projr default_etc" world0 0
        "10 * (pi * 16) * (9 / 10) * 3600" world0]
    by (simp add: sky_noise_result stub_hmbp_def quiet_def default_etc_def init_def Let_def)
qed

text \<open>
  C2, as the code has it. \<open>flux_to_mag\<close> computes
  \<open>F0 = zero_point_flux_photon * collection_area * quantum_efficiency * exposure_time\<close> and
  returns \<open>-2.5 * log10 (flux / F0)\<close> when the ratio is positive. When the ratio is not
  positive (or \<open>F0\<close> is zero) it raises nothing: it returns a non-finite float
  (\<open>nan\<close>, \<open>inf\<close> or \<open>-inf\<close>).
\<close>

theorem flux_to_mag_total:
  assumes "F0 = zp * collection_area self * quantum_efficiency self * exposure_time self"
  shows "(0 < flux / F0 \<longrightarrow>
            flux_to_mag self (Fin flux) zp = Inr (Fin (- (25 / 10) * log 10 (flux / F0))))
       \<and> (flux / F0 \<le> 0 \<longrightarrow>
            (\<exists>v. flux_to_mag self (Fin flux) zp = Inr v \<and> \<not> is_finite v))"
proof -
  have eq: "flux_to_mag self (Fin flux) zp =
              Inr (np_mul (Fin (- (25 / 10))) (np_log10 (np_div (Fin flux) (Fin F0))))"
    by (simp add: flux_to_mag_def Let_def assms)
  have "flux_to_mag self (Fin flux) zp = Inr (Fin (- (25 / 10) * log 10 (flux / F0)))"
    if pos: "0 < flux / F0"
  proof -
    from pos have "F0 \<noteq> 0" by auto
    with pos show ?thesis unfolding eq by (cases "flux = 0") simp_all
  qed
  moreover have "\<exists>v. flux_to_mag self (Fin flux) zp = Inr v \<and> \<not> is_finite v"
    if le: "flux / F0 \<le> 0"
  proof (cases "F0 = 0")
    case True
    then show ?thesis unfolding eq by simp
  next
    case False
    with le show ?thesis unfolding eq by (cases "flux / F0 < 0") simp_all
  qed
  ultimately show ?thesis by blast
qed

theorem flux_to_mag_total_witness:
  "flux_to_mag (projr default_etc) (Fin (pi * 5184)) (1 / 10)
     = Inr (Fin (- (25 / 10) * log 10 (pi * 5184 / (pi * 5184))))
   \<and> (\<exists>v. flux_to_mag (projr default_etc) (Fin 0) (1 / 10) = Inr v \<and> \<not> is_finite v)"
  using flux_to_mag_total[of "pi * 5184" "1 / 10" "projr default_etc" "pi * 5184"]
    flux_to_mag_total[of "pi * 5184" "1 / 10" "projr default_etc" 0]
  by (simp add: default_etc_def init_def Let_def)

text \<open>
  C2 as stated fails: with the default object, a flux of \<open>-1\<close> and a zero point of
  \<open>1\<close> the ratio is negative and the method returns \<open>nan\<close> instead of raising.
\<close>

theorem flux_to_mag_no_domain_error:
  "flux_to_mag (projr default_etc) (Fin (- 1)) 1 = Inr NaN"
  by (simp add: flux_to_mag_def default_etc_def init_def Let_def)

text \<open>
  C3. When the sky lookup and the zero-point lookup return, \<open>detectable_star_brightness\<close>
  takes the noise floor \<open>sky_noise + dark_current_noise + read_noise\<close> (no signal term),
  multiplies its square root by the desired signal-to-noise ratio and returns
  \<open>flux_to_mag\<close> of that required signal and the zero point.
\<close>

theorem detectable_star_brightness_formula:
  assumes "fst (sky_noise self svc f w') = Inr sky"
    and "outcome (in_zero_vega_mags svc f) = Inr zp"
  shows "fst (detectable_star_brightness self svc desired_sn f w) =
           flux_to_mag self
             (np_mul (Fin desired_sn) (np_sqrt (Fin (sky + dark_current_noise self + read_noise self))))
             zp
       \<and> (0 \<le> sky + dark_current_noise self + read_noise self \<longrightarrow>
            fst (detectable_star_brightness self svc desired_sn f w) =
              flux_to_mag self
                (Fin (desired_sn * sqrt (sky + dark_current_noise self + read_noise self))) zp)"
proof -
  have "fst (sky_noise self svc f w) = Inr sky"
    using assms(1) by (simp add: sky_noise_result)
  then have "fst (detectable_star_brightness self svc desired_sn f w) =
           flux_to_mag self
             (np_mul (Fin desired_sn) (np_sqrt (Fin (sky + dark_current_noise self + read_noise self))))
             zp"
    using assms(2)
    by (simp add: detectable_star_brightness_def call_hmbp_def Let_def split_beta)
  then show ?thesis by simp
qed

theorem detectable_star_brightness_formula_witness:
  "fst (detectable_star_brightness (projr default_etc) (stub_hmbp 0) 5 ''Ks'' world0) =
     flux_to_mag (projr default_etc)
       (Fin (5 * sqrt (0 + dark_current_noise (projr default_etc) + read_noise (projr default_etc))))
       1000"
proof -
  have pos: "0 \<le> 0 + dark_current_noise (projr default_etc) + read_noise (projr default_etc)"
    by (simp add: dark_current_noise_def read_noise_def default_etc_def init_def Let_def)
  show ?thesis
    using pos detectable_star_brightness_formula[of "projr default_etc" "stub_hmbp 0" "''Ks''"
        world0 0 1000 5 world0]
    by (simp add: sky_noise_result stub_hmbp_def quiet_def default_etc_def init_def Let_def)
qed







text \<open>
  C7, as the code has it. With \<open>savefig\<close> true and a filename that is not a string,
  \<open>plot\<close> always ends in an exception, never calls \<open>savefig\<close> and writes no file; the
  exception is the \<open>TypeError\<close> of the filename check when everything before the check
  (the figure, the sweep over the magnitudes, the drawing calls) has returned, and the
  exception of the first of those that raised otherwise. With a string filename, when
  everything before has returned, \<open>savefig\<close> is called once with that name; the file is
  written when that call returns, and its exception leaves \<open>plot\<close> with no file written
  when it raises.
\<close>

theorem plot_validates_filename:
  "(\<not> is_str filename \<longrightarrow>
      (\<exists>e. fst (plot mpl self svc snr True filename w) = Inl e)
      \<and> saved (snd (plot mpl self svc snr True filename w)) = saved w
      \<and> files (snd (plot mpl self svc snr True filename w)) = files w
      \<and> (fst (draw mpl self svc snr w) = Inr () \<longrightarrow>
           fst (plot mpl self svc snr True filename w)
             = Inl (TypeError (type_error_message filename)))
      \<and> (\<forall>e. fst (draw mpl self svc snr w) = Inl e \<longrightarrow>
           fst (plot mpl self svc snr True filename w) = Inl e))
   \<and> (\<forall>name. filename = PyStr name \<and> fst (draw mpl self svc snr w) = Inr () \<longrightarrow>
         saved (snd (plot mpl self svc snr True filename w)) = saved w @ [Savefig name]
         \<and> (mpl (Savefig name) = None \<longrightarrow>
              files (snd (plot mpl self svc snr True filename w)) = files w @ [name])
         \<and> (mpl (Savefig name) = None \<and> mpl Show = None \<longrightarrow>
              fst (plot mpl self svc snr True filename w) = Inr Figure)
         \<and> (\<forall>e. mpl (Savefig name) = Some e \<longrightarrow>
              fst (plot mpl self svc snr True filename w) = Inl e
              \<and> files (snd (plot mpl self svc snr True filename w)) = files w))"
proof -
  obtain r w1 where d: "draw mpl self svc snr w = (r, w1)" by (cases "draw mpl self svc snr w")
  have f: "saved w1 = saved w \<and> files w1 = files w"
    using draw_frame[of mpl self svc snr w] d by simp
  show ?thesis
  proof (cases r)
    case (Inl e)
    with d f show ?thesis by (simp add: plot_def)
  next
    case (Inr u)
    show ?thesis
    proof (cases "is_str filename")
      case False
      with d f Inr show ?thesis by (auto simp: plot_def)
    next
      case True
      then obtain name where n: "filename = PyStr name" by (cases filename) simp_all
      obtain r2 w2 where p: "plt mpl (Savefig name) w1 = (r2, w2)"
        by (cases "plt mpl (Savefig name) w1")
      have f2: "saved w2 = saved w @ [Savefig name]"
        using plt_frame(1)[where mpl = mpl and c = "Savefig name" and w = w1] p f by simp
      have r2: "r2 = (case mpl (Savefig name) of Some e \<Rightarrow> Inl e | None \<Rightarrow> Inr ())"
        using plt_frame(3)[where mpl = mpl and c = "Savefig name" and w = w1] p by simp
      have f3: "files w2 = (case mpl (Savefig name) of Some e \<Rightarrow> files w | None \<Rightarrow> files w @ [name])"
        using p f by (auto simp: plt_def Let_def split: option.splits)
      show ?thesis
      proof (cases "mpl (Savefig name)")
        case None
        with d Inr n p r2 f2 f3 show ?thesis
          by (cases u) (simp add: plot_def show_and_return_frame)
      next
        case (Some e)
        with d Inr n p r2 f2 f3 show ?thesis
          by (cases u) (simp add: plot_def)
      qed
    qed
  qed
qed

theorem plot_validates_filename_witness:
  "fst (plot stub_pyplot (projr default_etc) (stub_hmbp 100) (PyInt 5) True (PyInt 3) world0)
     = Inl (TypeError (type_error_message (PyInt 3)))
   \<and> saved (snd (plot stub_pyplot (projr default_etc) (stub_hmbp 100) (PyInt 5) True (PyInt 3) world0)) = []
   \<and> files (snd (plot stub_pyplot (projr default_etc) (stub_hmbp 100) (PyInt 5) True (PyInt 3) world0)) = []
   \<and> fst (plot stub_pyplot (projr default_etc) (stub_hmbp 100) (PyInt 5) True (PyStr ''etc.png'') world0)
       = Inr Figure
   \<and> saved (snd (plot stub_pyplot (projr default_etc) (stub_hmbp 100) (PyInt 5) True
                   (PyStr ''etc.png'') world0)) = [Savefig ''etc.png'']
   \<and> files (snd (plot stub_pyplot (projr default_etc) (stub_hmbp 100) (PyInt 5) True
                   (PyStr ''etc.png'') world0)) = [''etc.png'']"
proof -
  have e: "saved world0 = []" "files world0 = []" by (simp_all add: saved_def world0_def)
  show ?thesis
    using stub_draw_returns e
      plot_validates_filename[of "PyInt 3" stub_pyplot "projr default_etc" "stub_hmbp 100" "PyInt 5" world0]
      plot_validates_filename[of "PyStr ''etc.png''" stub_pyplot "projr default_etc" "stub_hmbp 100"
        "PyInt 5" world0]
    by simp
qed

text \<open>
  C7 as stated fails in both halves: with \<open>snr = [5, 10]\<close> and the filename \<open>3\<close> the
  exception is the \<open>ValueError\<close> of \<open>axhline\<close>, not the one of the filename check; with
  the string filename \<open>/nonexistent_dir/etc.png\<close> \<open>savefig\<close> raises and no file is
  saved.
\<close>

theorem plot_raises_other_errors:
  "fst (plot stub_pyplot (projr default_etc) (stub_hmbp 100) (PyList [PyInt 5, PyInt 10]) True
          (PyInt 3) world0) = Inl (ValueError ''y is not a scalar'')
   \<and> fst (plot stub_pyplot (projr default_etc) (stub_hmbp 100) (PyInt 5) True
            (PyStr ''/nonexistent_dir/etc.png'') world0)
       = Inl (FileNotFoundError ''/nonexistent_dir/etc.png'')
   \<and> files (snd (plot stub_pyplot (projr default_etc) (stub_hmbp 100) (PyInt 5) True
                   (PyStr ''/nonexistent_dir/etc.png'') world0)) = []"
proof -
  obtain ys w2 where
    s: "sweep (projr default_etc) (stub_hmbp 100) brightness_list
          (snd (plt stub_pyplot Subplots world0)) = (Inr ys, w2)"
    using stub_sweep_returns by blast
  have f: "files w2 = []"
    using sweep_frame[of "projr default_etc" "stub_hmbp 100" brightness_list
        "snd (plt stub_pyplot Subplots world0)"] s
    by (simp add: plt_def world0_def Let_def)
  have a: "fst (plot stub_pyplot (projr default_etc) (stub_hmbp 100) (PyList [PyInt 5, PyInt 10]) True
          (PyInt 3) world0) = Inl (ValueError ''y is not a scalar'')"
    using s by (simp add: plot_def draw_def plt_def drawing_calls_def Let_def)
  have b: "fst (plot stub_pyplot (projr default_etc) (stub_hmbp 100) (PyInt 5) True
            (PyStr ''/nonexistent_dir/etc.png'') world0)
       = Inl (FileNotFoundError ''/nonexistent_dir/etc.png'')"
    using s by (simp add: plot_def draw_def plt_def drawing_calls_def Let_def)
  have c: "files (snd (plot stub_pyplot (projr default_etc) (stub_hmbp 100) (PyInt 5) True
                   (PyStr ''/nonexistent_dir/etc.png'') world0)) = []"
    using s f by (simp add: plot_def draw_def plt_def drawing_calls_def Let_def)
  from a b c show ?thesis by blast
qed

text \<open>
  C10. With \<open>savefig\<close> false the filename is never looked at: \<open>plot\<close> gives the same
  result and the same final state for any two filenames, so a filename that is not a
  string raises nothing that a string filename would not raise.
\<close>

theorem plot_ignores_filename_without_savefig:
  "plot mpl self svc snr False filename1 w = plot mpl self svc snr False filename2 w"
  by (simp add: plot_def split: prod.splits sum.splits)

theorem plot_ignores_filename_without_savefig_witness:
  "plot stub_pyplot (projr default_etc) (stub_hmbp 100) (PyInt 5) False (PyInt 3) world0
     = plot stub_pyplot (projr default_etc) (stub_hmbp 100) (PyInt 5) False (PyStr ''etc.png'') world0"
  using plot_ignores_filename_without_savefig[of stub_pyplot "projr default_etc" "stub_hmbp 100"
      "PyInt 5" "PyInt 3" world0 "PyStr ''etc.png''"]
  by simp

end
